theory Spec2Isabelle
  imports Main "HOL-Library.AList"
begin

section \<open>Python values, strings and dictionaries\<close>

text \<open>
  Strings are modelled as \<^typ>\<open>string\<close>, the UTF-8 bytes of the Python text.  The only
  case conversions and substring tests of the program compare against ASCII tokens
  (\<open>agree\<close>, \<open>consent\<close>, \<open>captcha\<close>, \<open>g-recaptcha-response\<close>, \<open>true\<close>), none of which
  holds a letter that a non-ASCII code point lowers to, so \<open>str.lower\<close> acts on the
  bytes \<open>A\<close> .. \<open>Z\<close> only.

  A dictionary is an association list in insertion order: \<^const>\<open>AList.update\<close> replaces
  the value of a key in place and appends a new key at the end, as a Python \<open>dict\<close>
  does.  A key is a \<open>str\<close> or \<open>None\<close>, since the program stores under the result of
  \<open>element.get('name')\<close>.
\<close>

type_synonym pykey = "string option"

datatype pyval =
    PStr string
  | PBool bool
  | PNone
  | POther string bool

text \<open>
  \<open>POther r t\<close> stands for any other value \<open>json.loads\<close> can return (a number, a list, a
  dictionary), carried with its \<open>str()\<close> rendering \<open>r\<close> and its truth value \<open>t\<close>: these are
  the only two things the program asks of such a value.
\<close>

fun py_str :: "pyval \<Rightarrow> string" where
  "py_str (PStr s) = s"
| "py_str (PBool b) = (if b then ''True'' else ''False'')"
| "py_str PNone = ''None''"
| "py_str (POther r t) = r"

fun py_truthy :: "pyval \<Rightarrow> bool" where
  "py_truthy (PStr s) = (s \<noteq> [])"
| "py_truthy (PBool b) = b"
| "py_truthy PNone = False"
| "py_truthy (POther r t) = t"

fun py_of_opt :: "string option \<Rightarrow> pyval" where
  "py_of_opt None = PNone"
| "py_of_opt (Some s) = PStr s"

definition truthy_str :: "string option \<Rightarrow> bool" where
  "truthy_str s = (case s of None \<Rightarrow> False | Some t \<Rightarrow> t \<noteq> [])"

definition lower_char :: "char \<Rightarrow> char" where
  "lower_char c =
     (let n = (of_char c :: nat) in if 65 \<le> n \<and> n \<le> 90 then char_of (n + 32) else c)"

definition py_lower :: "string \<Rightarrow> string" where
  "py_lower s = map lower_char s"

fun starts_with :: "string \<Rightarrow> string \<Rightarrow> bool" where
  "starts_with [] s = True"
| "starts_with (c # cs) [] = False"
| "starts_with (c # cs) (d # ds) = (c = d \<and> starts_with cs ds)"

text \<open>\<open>py_in sub s\<close> is Python's \<open>sub in s\<close> on strings.\<close>

fun py_in :: "string \<Rightarrow> string \<Rightarrow> bool" where
  "py_in sub [] = (sub = [])"
| "py_in sub (c # cs) = (starts_with sub (c # cs) \<or> py_in sub cs)"

text \<open>
  \<open>', '.join(xs)\<close>: a \<open>TypeError\<close> (here \<open>None\<close>) when an item is not a string.
\<close>

fun py_join :: "string option list \<Rightarrow> string option" where
  "py_join [] = Some []"
| "py_join [x] = x"
| "py_join (x # y # ys) =
     (case x of
        None \<Rightarrow> None
      | Some s \<Rightarrow> (case py_join (y # ys) of None \<Rightarrow> None | Some r \<Rightarrow> Some (s @ '', '' @ r)))"

section \<open>The field catalog: \<open>extract_form_data\<close>\<close>

text \<open>
  The parsed form is the list of its elements in document order, which is the order
  \<open>soup.find_all\<close> returns them in.  An element has a tag, its attributes, and for a
  \<open>select\<close> the stripped text \<open>option.text.strip()\<close> of each of its options.
\<close>

record element =
  tag :: string
  attrs :: "string \<rightharpoonup> string"
  option_texts :: "string list"

text \<open>
  One entry of \<open>form_data\<close>.  The Python entry is a dictionary whose keys depend on the
  kind of field; a key that is absent is read with \<open>.get\<close> everywhere, so an absent key
  and a \<open>None\<close> value are one case (\<open>options\<close> absent is \<open>None\<close>, read as \<open>[]\<close>).
\<close>

record field_info =
  ftype :: "string option"
  required :: bool
  max_length :: "string option"
  placeholder :: "string option"
  options :: "string option list option"
  cb_value :: "string option"
  purpose :: "string option"

type_synonym form_data = "(pykey \<times> field_info) list"

definition aria_required :: "element \<Rightarrow> bool" where
  "aria_required e = (attrs e ''aria-required'' = Some ''true'')"

definition is_input_of :: "string list \<Rightarrow> element \<Rightarrow> bool" where
  "is_input_of types e =
     (tag e = ''input'' \<and> (case attrs e ''type'' of None \<Rightarrow> False | Some t \<Rightarrow> t \<in> set types))"

definition text_input_step :: "form_data \<Rightarrow> element \<Rightarrow> form_data" where
  "text_input_step fd e =
     (let name = attrs e ''name'' in
      if truthy_str name then
        AList.update name
          \<lparr>ftype = attrs e ''type'', required = aria_required e,
           max_length = attrs e ''maxlength'', placeholder = attrs e ''placeholder'',
           options = None, cb_value = None, purpose = None\<rparr> fd
      else fd)"

definition select_step :: "form_data \<Rightarrow> element \<Rightarrow> form_data" where
  "select_step fd e =
     (let name = attrs e ''name'' in
      if truthy_str name then
        AList.update name
          \<lparr>ftype = Some ''select'', required = aria_required e,
           max_length = None, placeholder = None,
           options = Some (map Some (filter (\<lambda>t. t \<noteq> []) (option_texts e))),
           cb_value = None, purpose = None\<rparr> fd
      else fd)"

definition append_option :: "string option \<Rightarrow> field_info \<Rightarrow> field_info" where
  "append_option v fi =
     fi\<lparr>options := Some ((case options fi of None \<Rightarrow> [] | Some os \<Rightarrow> os) @ [v])\<rparr>"

definition radio_step :: "form_data \<Rightarrow> element \<Rightarrow> form_data" where
  "radio_step rg e =
     (let name = attrs e ''name'' in
      if truthy_str name then
        AList.map_entry name (append_option (attrs e ''value''))
          (if map_of rg name = None then
             AList.update name
               \<lparr>ftype = Some ''radio'', required = aria_required e,
                max_length = None, placeholder = None, options = Some [],
                cb_value = None, purpose = None\<rparr> rg
           else rg)
      else rg)"

text \<open>\<open>dict.update\<close>: every item of the second dictionary is assigned in the first.\<close>

definition dict_update :: "('k \<times> 'v) list \<Rightarrow> ('k \<times> 'v) list \<Rightarrow> ('k \<times> 'v) list" where
  "dict_update d other = foldl (\<lambda>acc kv. AList.update (fst kv) (snd kv) acc) d other"

text \<open>The UTF-8 bytes of the two-character Japanese word for consent.\<close>

definition doui :: string where
  "doui = [CHR 0xE5, CHR 0x90, CHR 0x8C, CHR 0xE6, CHR 0x84, CHR 0x8F]"

definition is_agreement_name :: "string \<Rightarrow> bool" where
  "is_agreement_name n =
     (py_in ''agree'' (py_lower n) \<or> py_in ''consent'' (py_lower n) \<or> py_in doui n)"

text \<open>
  The checkbox loop.  Its \<open>else\<close> branch is taken by every checkbox that is not an
  agreement checkbox, whatever \<open>name\<close> is: the assignment \<open>form_data[name] = ...\<close> there
  is not under an \<open>if name:\<close>.
\<close>

definition checkbox_step :: "form_data \<Rightarrow> element \<Rightarrow> form_data" where
  "checkbox_step fd e =
     (let name = attrs e ''name'' in
      if truthy_str name \<and> (case name of None \<Rightarrow> False | Some n \<Rightarrow> is_agreement_name n) then
        AList.update name
          \<lparr>ftype = Some ''checkbox'', required = aria_required e,
           max_length = None, placeholder = None, options = None,
           cb_value = attrs e ''value'', purpose = Some ''agreement''\<rparr> fd
      else
        AList.update name
          \<lparr>ftype = Some ''checkbox'', required = aria_required e,
           max_length = None, placeholder = None, options = None,
           cb_value = attrs e ''value'', purpose = None\<rparr> fd)"

definition is_captcha_name :: "string \<Rightarrow> bool" where
  "is_captcha_name n =
     (py_in ''captcha'' (py_lower n) \<or> py_in ''g-recaptcha-response'' (py_lower n))"

definition textarea_step :: "form_data \<Rightarrow> element \<Rightarrow> form_data" where
  "textarea_step fd e =
     (let name = attrs e ''name'' in
      if truthy_str name \<and> (case name of None \<Rightarrow> False | Some n \<Rightarrow> is_captcha_name n) then
        AList.update name
          \<lparr>ftype = Some ''captcha'', required = True,
           max_length = None, placeholder = None, options = None,
           cb_value = None, purpose = None\<rparr> fd
      else if truthy_str name then
        AList.update name
          \<lparr>ftype = Some ''textarea'', required = aria_required e,
           max_length = None, placeholder = None, options = None,
           cb_value = None, purpose = None\<rparr> fd
      else fd)"


text \<open>
  \<open>extract_form_data\<close>.  The argument is \<open>None\<close> when no \<open>form\<close> element is located
  within the wait (the \<open>TimeoutException\<close> and \<open>NoSuchElementException\<close> handlers return
  the empty catalog).  The five loops run one after the other over the whole form, each
  over the elements \<open>find_all\<close> selects for it.
\<close>

definition extract_form_data :: "element list option \<Rightarrow> form_data" where
  "extract_form_data page =
     (case page of
        None \<Rightarrow> []
      | Some form \<Rightarrow>
          (let fd1 = foldl text_input_step []
                       (filter (is_input_of [''text'', ''email'', ''tel'']) form);
               fd2 = foldl select_step fd1 (filter (\<lambda>e. tag e = ''select'') form);
               radio_groups = foldl radio_step [] (filter (is_input_of [''radio'']) form);
               fd3 = dict_update fd2 radio_groups;
               fd4 = foldl checkbox_step fd3 (filter (is_input_of [''checkbox'']) form)
           in foldl textarea_step fd4 (filter (\<lambda>e. tag e = ''textarea'') form)))"

text \<open>
  An invariant of the catalog: an entry with a \<open>purpose\<close> is a checkbox entry.
\<close>

definition agreement_is_checkbox :: "field_info \<Rightarrow> bool" where
  "agreement_is_checkbox fi = (purpose fi = None \<or> ftype fi = Some ''checkbox'')"

definition entries_ok :: "form_data \<Rightarrow> bool" where
  "entries_ok fd = list_all (\<lambda>kv. agreement_is_checkbox (snd kv)) fd"

section \<open>The mapping store: \<open>load_input_mappings\<close> and \<open>save_input_mapping\<close>\<close>

text \<open>
  The store file is modelled at the level of the \<open>csv\<close> library's rows: a file is absent
  (\<open>None\<close>) or is the list of its rows, each the list of its cells as the \<open>csv\<close> writer
  was given them, the header row first.  Quoting and delimiters belong to the library
  and are not modelled.  What the program itself decides is modelled: whether a header
  is written, the order and rendering of the cells, how a row is read against the
  header, and the text mode of the two \<open>open\<close> calls.
\<close>

datatype py_error = KeyError | AttributeError | TypeError | NameError

type_synonym csv_row = "string list"

type_synonym csv_file = "csv_row list option"

definition fieldnames :: "string list" where
  "fieldnames = [''id'', ''company-name'', ''company-id'', ''type'', ''name'',
     ''option'', ''value'', ''required'', ''max_length'', ''placeholder'']"

text \<open>
  \<open>save_input_mapping\<close> opens the file with \<open>newline=''\<close>, \<open>load_input_mappings\<close> without
  it.  Reading therefore runs in Python's universal newlines mode, which hands the
  \<open>csv\<close> reader every \<open>\r\n\<close> and every lone \<open>\r\<close> as \<open>\n\<close>, also inside a quoted cell.
\<close>

fun universal_newlines :: "string \<Rightarrow> string" where
  "universal_newlines [] = []"
| "universal_newlines [c] = (if c = CHR 0x0D then [CHR 0x0A] else [c])"
| "universal_newlines (c # d # cs) =
     (if c = CHR 0x0D then
        (if d = CHR 0x0A then CHR 0x0A # universal_newlines cs
         else CHR 0x0A # universal_newlines (d # cs))
      else c # universal_newlines (d # cs))"

text \<open>
  \<open>csv.DictReader\<close>: the dictionary of one row.  A key of the header beyond the end of
  the row is bound to \<open>None\<close> (\<open>restval\<close>); where the header repeats a key the last
  occurrence decides.  The result is \<open>None\<close> at a key the header does not have.
\<close>

definition row_dict :: "csv_row \<Rightarrow> csv_row \<Rightarrow> (string \<rightharpoonup> string option)" where
  "row_dict hdr row =
     map_of (rev (zip hdr (map Some row @ replicate (length hdr - length row) None)))"

text \<open>\<open>row.get(k, '')\<close>.\<close>

definition row_get :: "(string \<rightharpoonup> string option) \<Rightarrow> string \<Rightarrow> string option" where
  "row_get d k = (case d k of None \<Rightarrow> Some [] | Some v \<Rightarrow> v)"

text \<open>One record of \<open>existing_mappings[company_name]\<close>.\<close>

record mapping_record =
  m_company_id :: "string option"
  m_type :: "string option"
  m_name :: "string option"
  m_option :: "string option"
  m_value :: "string option"
  m_required :: bool
  m_max_length :: "string option"
  m_placeholder :: "string option"

type_synonym mappings = "(pykey \<times> mapping_record list) list"

text \<open>
  The body of the loop of \<open>load_input_mappings\<close> up to the record: \<open>row[k]\<close> raises
  \<open>KeyError\<close> at a key the header lacks, and \<open>.lower()\<close> raises \<open>AttributeError\<close> on the
  \<open>None\<close> of a row too short to reach the \<open>required\<close> column.
\<close>

definition load_row ::
  "(string \<rightharpoonup> string option) \<Rightarrow> py_error + (pykey \<times> mapping_record)" where
  "load_row d =
     (case d ''company-name'' of None \<Rightarrow> Inl KeyError | Some company_name \<Rightarrow>
     (case d ''company-id'' of None \<Rightarrow> Inl KeyError | Some company_id \<Rightarrow>
     (case d ''type'' of None \<Rightarrow> Inl KeyError | Some ty \<Rightarrow>
     (case d ''name'' of None \<Rightarrow> Inl KeyError | Some name \<Rightarrow>
     (case d ''value'' of None \<Rightarrow> Inl KeyError | Some v \<Rightarrow>
     (case row_get d ''required'' of None \<Rightarrow> Inl AttributeError | Some req \<Rightarrow>
        Inr (company_name,
          \<lparr>m_company_id = company_id, m_type = ty, m_name = name,
           m_option = row_get d ''option'', m_value = v,
           m_required = (py_lower req = ''true''),
           m_max_length = row_get d ''max_length'',
           m_placeholder = row_get d ''placeholder''\<rparr>)))))))"

text \<open>
  \<open>if company_name not in mappings: mappings[company_name] = []\<close>, then
  \<open>mappings[company_name].append(field_info)\<close>.
\<close>

definition add_record :: "pykey \<Rightarrow> mapping_record \<Rightarrow> mappings \<Rightarrow> mappings" where
  "add_record c r m =
     AList.map_entry c (\<lambda>rs. rs @ [r]) (if map_of m c = None then AList.update c [] m else m)"

text \<open>The loop over the rows after the header; \<open>DictReader\<close> skips a row without cells.\<close>

fun load_rows :: "csv_row \<Rightarrow> csv_row list \<Rightarrow> mappings \<Rightarrow> py_error + mappings" where
  "load_rows hdr [] m = Inr m"
| "load_rows hdr (r # rs) m =
     (if r = [] then load_rows hdr rs m
      else (case load_row (row_dict hdr r) of
              Inl e \<Rightarrow> Inl e
            | Inr cr \<Rightarrow> load_rows hdr rs (add_record (fst cr) (snd cr) m)))"

definition load_input_mappings :: "csv_file \<Rightarrow> py_error + mappings" where
  "load_input_mappings file =
     (case file of
        None \<Rightarrow> Inr []
      | Some rows \<Rightarrow>
          (case map (map universal_newlines) rows of
             [] \<Rightarrow> Inr []
           | hdr # rs \<Rightarrow> load_rows hdr rs []))"

text \<open>One entry of \<open>generate_item\<close>, as \<open>generate_form_input\<close> builds it.\<close>

record item =
  i_type :: "string option"
  i_name :: string
  i_option :: string
  i_value :: pyval
  i_required :: bool
  i_max_length :: "string option"
  i_placeholder :: "string option"

text \<open>The \<open>csv\<close> writer renders \<open>None\<close> as the empty cell and any other value by \<open>str\<close>.\<close>

fun csv_cell :: "pyval \<Rightarrow> string" where
  "csv_cell PNone = []"
| "csv_cell v = py_str v"

definition opt_cell :: "string option \<Rightarrow> string" where
  "opt_cell s = (case s of None \<Rightarrow> [] | Some t \<Rightarrow> t)"

text \<open>
  The row \<open>writer.writerow\<close> is given, in the order of \<open>fieldnames\<close>.  \<open>user_id\<close> is the
  module's \<open>USER_ID\<close>.
\<close>

definition save_row :: "string \<Rightarrow> string \<Rightarrow> string \<Rightarrow> item \<Rightarrow> csv_row" where
  "save_row user_id company_id company_name it =
     [user_id, company_name, company_id, opt_cell (i_type it), i_name it, i_option it,
      csv_cell (i_value it), (if i_required it then ''True'' else ''False''),
      (if truthy_str (i_max_length it) then opt_cell (i_max_length it) else []),
      (if truthy_str (i_placeholder it) then opt_cell (i_placeholder it) else [])]"

text \<open>
  \<open>save_input_mapping\<close>: the header is written when \<open>os.path.isfile\<close> is false, and one
  row per item is appended.
\<close>

definition save_input_mapping ::
  "string \<Rightarrow> csv_file \<Rightarrow> item list \<Rightarrow> string \<Rightarrow> string \<Rightarrow> csv_file" where
  "save_input_mapping user_id file generate_item company_id company_name =
     Some ((case file of None \<Rightarrow> [fieldnames] | Some rows \<Rightarrow> rows)
           @ map (save_row user_id company_id company_name) generate_item)"

text \<open>
  Names used to state what a load returns: the records a mapping holds for a company
  (none when the company is not a key), the records of the rows of a file in file order,
  the rows after the header that hold cells, and the record that is read back from the
  row written for one item.
\<close>

definition records_of :: "mappings \<Rightarrow> pykey \<Rightarrow> mapping_record list" where
  "records_of m c = (case map_of m c of None \<Rightarrow> [] | Some rs \<Rightarrow> rs)"

definition row_records :: "csv_row \<Rightarrow> csv_row list \<Rightarrow> (pykey \<times> mapping_record) list" where
  "row_records hdr rs =
     concat (map (\<lambda>r. if r = [] then []
                       else (case load_row (row_dict hdr r) of Inl e \<Rightarrow> [] | Inr cr \<Rightarrow> [cr])) rs)"

definition file_records :: "csv_file \<Rightarrow> (pykey \<times> mapping_record) list" where
  "file_records file =
     (case file of
        None \<Rightarrow> []
      | Some rows \<Rightarrow>
          (case map (map universal_newlines) rows of
             [] \<Rightarrow> []
           | hdr # rs \<Rightarrow> row_records hdr rs))"

definition data_rows :: "csv_file \<Rightarrow> csv_row list" where
  "data_rows file =
     (case file of None \<Rightarrow> [] | Some rows \<Rightarrow> filter (\<lambda>r. r \<noteq> []) (tl rows))"


section \<open>Input synthesis: \<open>generate_form_input\<close>\<close>

text \<open>
  The two provenance labels the function assigns: \<open>CSV_mapping\<close> is the label of a value
  taken from an existing mapping, \<open>CSV_input\<close> the label of the supplied inquiry content.
  No other label is assigned anywhere.
\<close>

datatype provenance = CSV_mapping | CSV_input

text \<open>
  A generative request is the prompt; the prompt is a fixed text around the two things
  that vary, \<open>json.dumps(ai_input_needed)\<close> and \<open>inquiry_content\<close>.
\<close>

record request =
  ai_input_needed :: form_data
  req_content :: "string option"

text \<open>
  The reply of the generative collaborator: the call raises, or it returns the text
  \<open>response.choices[0].message.content\<close>, which may be \<open>None\<close>.
\<close>

datatype ai_reply = Ai_raises | Ai_content "string option"

text \<open>What the function returns, with the catalog as it leaves it and the requests made.\<close>

record resolution =
  generated_input :: "(pykey \<times> pyval) list option"
  field_sources :: "(pykey \<times> provenance) list"
  generate_status :: string
  generate_item :: "item list option"
  form_data_after :: form_data
  requests :: "request list"

text \<open>
  \<open>re.search(r'\{[\s\S]*\}', answer)\<close>: the match runs from the first opening brace to
  the last closing brace after it.
\<close>

definition json_match :: "string \<Rightarrow> string option" where
  "json_match answer =
     (let s = dropWhile (\<lambda>c. c \<noteq> CHR ''{'') answer;
          r = rev (dropWhile (\<lambda>c. c \<noteq> CHR ''}'') (rev s))
      in if s = [] \<or> r = [] then None else Some r)"

text \<open>The loop over the existing records of the company.\<close>

definition cached_step ::
  "(pykey \<times> pyval) list \<times> (pykey \<times> provenance) list \<Rightarrow> mapping_record \<Rightarrow>
   (pykey \<times> pyval) list \<times> (pykey \<times> provenance) list" where
  "cached_step acc m =
     (AList.update (m_name m) (py_of_opt (m_value m)) (fst acc),
      AList.update (m_name m) CSV_mapping (snd acc))"

text \<open>
  The loop over \<open>ai_generated_input.items()\<close>.  \<open>None\<close> is an exception inside the loop:
  the \<open>KeyError\<close> of \<open>form_data[field_name]\<close> for a name the catalog does not have, or the
  \<open>TypeError\<close> of \<open>', '.join\<close> over an option that is \<open>None\<close>.
\<close>

fun ai_loop ::
  "form_data \<Rightarrow> (string \<times> pyval) list \<Rightarrow> (pykey \<times> pyval) list \<times> item list \<Rightarrow>
   ((pykey \<times> pyval) list \<times> item list) option" where
  "ai_loop fd [] acc = Some acc"
| "ai_loop fd (kv # rest) acc =
     (if map_of (fst acc) (Some (fst kv)) \<noteq> None then ai_loop fd rest acc
      else
        (case map_of fd (Some (fst kv)) of
           None \<Rightarrow> None
         | Some fi \<Rightarrow>
             (let all_options = (case options fi of None \<Rightarrow> [] | Some os \<Rightarrow> os);
                  not_selected_options = filter (\<lambda>opt. py_of_opt opt \<noteq> snd kv) all_options
              in case py_join not_selected_options of
                   None \<Rightarrow> None
                 | Some option \<Rightarrow>
                     ai_loop fd rest
                       (AList.update (Some (fst kv)) (snd kv) (fst acc),
                        snd acc @
                          [\<lparr>i_type = ftype fi, i_name = fst kv, i_option = option,
                            i_value = snd kv, i_required = required fi,
                            i_max_length = max_length fi,
                            i_placeholder = placeholder fi\<rparr>]))))"

text \<open>
  \<open>generate_form_input\<close>.  \<open>ai\<close> is the generative collaborator and \<open>json_loads\<close> is
  \<open>json.loads\<close> on a text that starts with a brace: the items of the object, or \<open>None\<close>
  for a \<open>JSONDecodeError\<close>.
\<close>

definition generate_form_input ::
  "(request \<Rightarrow> ai_reply) \<Rightarrow> (string \<Rightarrow> (string \<times> pyval) list option) \<Rightarrow>
   form_data \<Rightarrow> mappings \<Rightarrow> pykey \<Rightarrow> string option \<Rightarrow> resolution" where
  "generate_form_input ai json_loads form_data existing_mappings company_name inquiry_content =
     (let fd = AList.delete (Some ''g-recaptcha-response'') form_data in
      case map_of existing_mappings company_name of
        Some records \<Rightarrow>
          (let acc = foldl cached_step ([], []) records in
           \<lparr>generated_input = Some (fst acc), field_sources = snd acc,
            generate_status = ''input_from_existing_mapping'', generate_item = Some [],
            form_data_after = fd, requests = []\<rparr>)
      | None \<Rightarrow>
          (let supplied = truthy_str inquiry_content;
               gi0 = (if supplied
                      then [(Some ''inquiry_content'', py_of_opt inquiry_content)] else []);
               fs = (if supplied then [(Some ''inquiry_content'', CSV_input)] else []);
               needed = filter (\<lambda>kv. fst kv \<noteq> Some ''inquiry_content'') fd;
               failed = \<lparr>generated_input = None, field_sources = fs,
                         generate_status = ''input_generation_failed'', generate_item = None,
                         form_data_after = fd,
                         requests = [\<lparr>ai_input_needed = needed, req_content = inquiry_content\<rparr>]\<rparr>
           in if needed \<noteq> [] then
                (case ai \<lparr>ai_input_needed = needed, req_content = inquiry_content\<rparr> of
                   Ai_raises \<Rightarrow> failed
                 | Ai_content None \<Rightarrow> failed
                 | Ai_content (Some answer) \<Rightarrow>
                     (case json_match answer of
                        None \<Rightarrow> failed
                      | Some json_str \<Rightarrow>
                          (case json_loads json_str of
                             None \<Rightarrow> failed
                           | Some ai_generated_input \<Rightarrow>
                               (case ai_loop fd ai_generated_input (gi0, []) of
                                  None \<Rightarrow> failed
                                | Some acc \<Rightarrow>
                                    failed\<lparr>generated_input := Some (fst acc),
                                      generate_status := ''all_input_from_ai'',
                                      generate_item := Some (snd acc)\<rparr>))))
              else
                \<lparr>generated_input = Some gi0, field_sources = fs,
                 generate_status = ''all_fill_from_csv'', generate_item = None,
                 form_data_after = fd, requests = []\<rparr>))"

text \<open>
  Names for parts of the result on the path without an existing mapping: the one request
  the function makes, the input and the label it sets for a supplied inquiry content, what
  it returns when synthesis fails, and the condition under which it finds no JSON object
  in the reply (the call raises, the reply has no text, the pattern finds no match, or
  \<open>json.loads\<close> rejects the match).
\<close>

definition generation_request :: "form_data \<Rightarrow> string option \<Rightarrow> request" where
  "generation_request form_data inquiry_content =
     \<lparr>ai_input_needed =
        filter (\<lambda>kv. fst kv \<noteq> Some ''inquiry_content'')
          (AList.delete (Some ''g-recaptcha-response'') form_data),
      req_content = inquiry_content\<rparr>"

definition no_json_object ::
  "(string \<Rightarrow> (string \<times> pyval) list option) \<Rightarrow> ai_reply \<Rightarrow> bool" where
  "no_json_object json_loads reply =
     (case reply of
        Ai_raises \<Rightarrow> True
      | Ai_content None \<Rightarrow> True
      | Ai_content (Some answer) \<Rightarrow>
          (case json_match answer of None \<Rightarrow> True | Some json_str \<Rightarrow> json_loads json_str = None))"

definition supplied_inputs :: "string option \<Rightarrow> (pykey \<times> pyval) list" where
  "supplied_inputs inquiry_content =
     (if truthy_str inquiry_content
      then [(Some ''inquiry_content'', py_of_opt inquiry_content)] else [])"

definition supplied_sources :: "string option \<Rightarrow> (pykey \<times> provenance) list" where
  "supplied_sources inquiry_content =
     (if truthy_str inquiry_content then [(Some ''inquiry_content'', CSV_input)] else [])"

definition failed_resolution :: "form_data \<Rightarrow> string option \<Rightarrow> resolution" where
  "failed_resolution form_data inquiry_content =
     \<lparr>generated_input = None, field_sources = supplied_sources inquiry_content,
      generate_status = ''input_generation_failed'', generate_item = None,
      form_data_after = AList.delete (Some ''g-recaptcha-response'') form_data,
      requests = [generation_request form_data inquiry_content]\<rparr>"

section \<open>Filling the form: \<open>fill_form\<close>\<close>

text \<open>
  The browser is an external collaborator.  The page is modelled by what \<open>fill_form\<close>
  asks of it: for a checkbox name, whether \<open>find_element\<close> finds a checkbox of that name
  and whether it is selected (\<open>None\<close> is \<open>NoSuchElementException\<close>), and whether \<open>click\<close> on
  it succeeds; for the other kinds of field, how the whole action ends.  A successful
  \<open>click\<close> toggles the checkbox it is sent to and changes no other checkbox, and the
  actions on other kinds of field change no checkbox: these are the assumptions of the
  model about the browser.
\<close>

datatype fill_outcome = Filled | Not_located | Fill_raises

record page =
  checkbox :: "pykey \<Rightarrow> bool option"
  clickable :: "pykey \<Rightarrow> bool"
  other_fill :: "string option \<Rightarrow> pykey \<Rightarrow> pyval \<Rightarrow> fill_outcome"
  filled :: "(pykey \<times> pyval) list"

text \<open>
  \<open>Normal\<close>: the loop goes on with the next field.  \<open>Raised\<close>: an exception that no
  handler inside the loop catches leaves the loop, and the fields after it are not
  filled.
\<close>

datatype flow = Normal page | Raised page

fun page_of :: "flow \<Rightarrow> page" where
  "page_of (Normal p) = p"
| "page_of (Raised p) = p"

definition click :: "page \<Rightarrow> pykey \<Rightarrow> bool \<Rightarrow> flow" where
  "click p k sel =
     (if clickable p k then Normal (p\<lparr>checkbox := (checkbox p)(k := Some (\<not> sel))\<rparr>)
      else Raised p)"

text \<open>
  A text, select, radio or textarea field: the element is waited for (\<open>TimeoutException\<close>
  is caught and the field skipped) and then filled.
\<close>

definition fill_other :: "page \<Rightarrow> string option \<Rightarrow> pykey \<Rightarrow> pyval \<Rightarrow> flow" where
  "fill_other p kind k v =
     (case other_fill p kind k v of
        Filled \<Rightarrow> Normal (p\<lparr>filled := filled p @ [(k, v)]\<rparr>)
      | Not_located \<Rightarrow> Normal p
      | Fill_raises \<Rightarrow> Raised p)"

fun is_bool :: "pyval \<Rightarrow> bool" where
  "is_bool (PBool b) = True"
| "is_bool v = False"

definition fill_checkbox :: "page \<Rightarrow> field_info \<Rightarrow> pykey \<Rightarrow> pyval \<Rightarrow> flow" where
  "fill_checkbox p fi k v =
     (case checkbox p k of
        None \<Rightarrow> Normal p
      | Some sel \<Rightarrow>
          if purpose fi = Some ''agreement'' then
            (if \<not> sel then click p k sel else Normal p)
          else if is_bool v then
            (if py_truthy v \<and> \<not> sel then click p k sel
             else if \<not> py_truthy v \<and> sel then click p k sel
             else Normal p)
          else
            (if py_truthy v \<and> \<not> sel then click p k sel
             else if \<not> py_truthy v \<and> sel then click p k sel
             else Normal p))"

text \<open>The body of the loop over \<open>generated_input.items()\<close>.\<close>

definition fill_field :: "form_data \<Rightarrow> page \<Rightarrow> pykey \<times> pyval \<Rightarrow> flow" where
  "fill_field fd p kv =
     (case map_of fd (fst kv) of
        None \<Rightarrow> Normal p
      | Some fi \<Rightarrow>
          if ftype fi \<in> set [Some ''text'', Some ''email'', Some ''tel''] then
            fill_other p (ftype fi) (fst kv) (snd kv)
          else if ftype fi = Some ''select'' then fill_other p (ftype fi) (fst kv) (snd kv)
          else if ftype fi = Some ''radio'' then fill_other p (ftype fi) (fst kv) (snd kv)
          else if ftype fi = Some ''checkbox'' then fill_checkbox p fi (fst kv) (snd kv)
          else if ftype fi = Some ''textarea'' then fill_other p (ftype fi) (fst kv) (snd kv)
          else if ftype fi = Some ''captcha'' then Normal p
          else Normal p)"




section \<open>The batch coordinator: \<open>submit_forms\<close>\<close>

text \<open>One result dictionary; the fields are named after the columns of the spec.\<close>

record submission_result =
  timestamp :: string
  target_url :: string
  field_names :: string
  field_values :: string
  status :: string
  status_message :: string
  check_message :: string

text \<open>
  What \<open>future.result()\<close> does for one task: it returns the task's result, or it raises
  the exception of the worker, carried here as its text.
\<close>

datatype future = Result submission_result | Exception string

text \<open>
  The names bound at module level in \<open>app.py\<close>: its imports and its own assignments and
  functions.  A name that is not among them (and is not a builtin) raises \<open>NameError\<close>
  when it is read.
\<close>

definition app_globals :: "string list" where
  "app_globals =
     [''Flask'', ''request'', ''jsonify'', ''os'', ''pd'', ''logging'',
      ''ProcessPoolExecutor'', ''as_completed'', ''partial'', ''load_dotenv'', ''uuid'',
      ''verify_columns'', ''load_input_mappings'', ''save_input_mapping'',
      ''extract_form_data'', ''generate_form_input'', ''handle_recaptcha'', ''fill_form'',
      ''click_submit_button'', ''check_submission_status'',
      ''check_form_submission_success'', ''add_result'', ''summarize_results'',
      ''save_results_to_json'', ''save_results_to_csv'', ''detect_captcha'',
      ''scroll_into_view'', ''fill_input_field'', ''find_and_click_submit'',
      ''submit_contact_form'', ''find_contact_info'', ''process_company'',
      ''app'', ''openai_api_key'', ''anticaptcha_api_key'', ''USER_ID'',
      ''submit_forms'', ''index'']"

definition load_global :: "string \<Rightarrow> py_error + unit" where
  "load_global n = (if n \<in> set app_globals then Inr () else Inl NameError)"

text \<open>The UTF-8 bytes of the Japanese text that starts the message of a synthetic result.\<close>

definition parallel_error_prefix :: string where
  "parallel_error_prefix =
    [CHR 0xE4, CHR 0xB8, CHR 0xA6, CHR 0xE5, CHR 0x88, CHR 0x97, CHR 0xE5, CHR 0x87,
     CHR 0xA6, CHR 0xE7, CHR 0x90, CHR 0x86, CHR 0xE4, CHR 0xB8, CHR 0xAD, CHR 0xE3,
     CHR 0x81, CHR 0xAB, CHR 0xE3, CHR 0x82, CHR 0xA8, CHR 0xE3, CHR 0x83, CHR 0xA9,
     CHR 0xE3, CHR 0x83, CHR 0xBC, CHR 0xE3, CHR 0x81, CHR 0x8C, CHR 0xE7, CHR 0x99,
     CHR 0xBA, CHR 0xE7, CHR 0x94, CHR 0x9F, CHR 0xE3, CHR 0x81, CHR 0x97, CHR 0xE3,
     CHR 0x81, CHR 0xBE, CHR 0xE3, CHR 0x81, CHR 0x97, CHR 0xE3, CHR 0x81, CHR 0x9F,
     CHR 0x3A, CHR 0x20]"

text \<open>
  The dictionary the \<open>except\<close> handler appends.  Its first value is
  \<open>time.strftime(...)\<close>, so the name \<open>time\<close> is read before anything is appended; \<open>now\<close> is
  what \<open>time.strftime\<close> would return.
\<close>

definition error_result :: "string \<Rightarrow> string \<Rightarrow> py_error + submission_result" where
  "error_result now e =
     (case load_global ''time'' of
        Inl err \<Rightarrow> Inl err
      | Inr u \<Rightarrow>
          Inr \<lparr>timestamp = now, target_url = ''N/A'', field_names = [], field_values = [],
               status = ''error'', status_message = parallel_error_prefix @ e,
               check_message = []\<rparr>)"

text \<open>
  The loop \<open>for future in as_completed(futures)\<close>, over the futures in the order they
  complete.  An exception raised inside the handler leaves the loop and the function.
\<close>

fun collect ::
  "string \<Rightarrow> future list \<Rightarrow> submission_result list \<Rightarrow> py_error + submission_result list" where
  "collect now [] results = Inr results"
| "collect now (Result r # fs) results = collect now fs (results @ [r])"
| "collect now (Exception e # fs) results =
     (case error_result now e of
        Inl err \<Rightarrow> Inl err
      | Inr r \<Rightarrow> collect now fs (results @ [r]))"

definition submit_forms :: "string \<Rightarrow> future list \<Rightarrow> py_error + submission_result list" where
  "submit_forms now futures = collect now futures []"

section \<open>Example inputs\<close>

text \<open>Concrete forms, replies and stores, used to run the definitions above.\<close>

definition el :: "string \<Rightarrow> (string \<times> string) list \<Rightarrow> element" where
  "el t as = \<lparr>tag = t, attrs = map_of as, option_texts = []\<rparr>"

text \<open>A form whose only element is \<open><input type="checkbox">\<close>, with no \<open>name\<close>.\<close>

definition nameless_checkbox_form :: "element list" where
  "nameless_checkbox_form = [el ''input'' [(''type'', ''checkbox'')]]"

text \<open>A form with one e-mail input, and a reply that also names a field \<open>phone\<close>.\<close>

definition email_form :: "element list" where
  "email_form = [el ''input'' [(''type'', ''email''), (''name'', ''email'')]]"

definition answer_with_phone :: string where
  \<open>answer_with_phone = ''{"email": "a@example.com", "phone": "0312345678"}''\<close>

definition loads_with_phone :: "string \<Rightarrow> (string \<times> pyval) list option" where
  "loads_with_phone s =
     (if s = answer_with_phone
      then Some [(''email'', PStr ''a@example.com''), (''phone'', PStr ''0312345678'')]
      else None)"

text \<open>A batch of ten tasks in which the worker of the third raises.\<close>

definition ok_result :: submission_result where
  "ok_result =
     \<lparr>timestamp = ''2024/01/01 09:00'', target_url = ''https://example.com/contact'',
      field_names = ''email'', field_values = ''a@example.com'', status = ''success'',
      status_message = [], check_message = []\<rparr>"

definition batch10 :: "future list" where
  "batch10 =
     [Result ok_result, Result ok_result, Exception ''boom'']
     @ replicate 7 (Result ok_result)"

text \<open>An existing mapping of one company with two fields.\<close>

definition acme_records :: "mapping_record list" where
  "acme_records =
     [\<lparr>m_company_id = Some ''c-1'', m_type = Some ''email'', m_name = Some ''email'',
       m_option = Some [], m_value = Some ''a@example.com'', m_required = True,
       m_max_length = Some [], m_placeholder = Some []\<rparr>,
      \<lparr>m_company_id = Some ''c-1'', m_type = Some ''textarea'', m_name = Some ''message'',
       m_option = Some [], m_value = Some ''Hello'', m_required = False,
       m_max_length = Some [], m_placeholder = Some []\<rparr>]"

definition acme_mappings :: mappings where
  "acme_mappings = [(Some ''Acme'', acme_records)]"

definition ai_down :: "request \<Rightarrow> ai_reply" where
  "ai_down q = Ai_raises"

definition loads_nothing :: "string \<Rightarrow> (string \<times> pyval) list option" where
  "loads_nothing s = None"

text \<open>A reply without any brace.\<close>

definition ai_apology :: "request \<Rightarrow> ai_reply" where
  "ai_apology q = Ai_content (Some ''Sorry, I cannot help with that.'')"












text \<open>
  A store written by two runs for the same company and field, the records a load returns
  for it, and an item whose value is the boolean \<open>False\<close>.
\<close>

definition old_item :: item where
  "old_item = \<lparr>i_type = Some ''email'', i_name = ''email'', i_option = [],
     i_value = PStr ''old@example.com'', i_required = True,
     i_max_length = None, i_placeholder = None\<rparr>"

definition new_item :: item where
  "new_item = \<lparr>i_type = Some ''email'', i_name = ''email'', i_option = [],
     i_value = PStr ''new@example.com'', i_required = True,
     i_max_length = None, i_placeholder = None\<rparr>"

definition dup_store :: csv_file where
  "dup_store =
     save_input_mapping ''u-1''
       (save_input_mapping ''u-1'' None [old_item] ''c-1'' ''Acme'')
       [new_item] ''c-1'' ''Acme''"

definition dup_records :: "mapping_record list" where
  "dup_records =
     [\<lparr>m_company_id = Some ''c-1'', m_type = Some ''email'', m_name = Some ''email'',
       m_option = Some [], m_value = Some ''old@example.com'', m_required = True,
       m_max_length = Some [], m_placeholder = Some []\<rparr>,
      \<lparr>m_company_id = Some ''c-1'', m_type = Some ''email'', m_name = Some ''email'',
       m_option = Some [], m_value = Some ''new@example.com'', m_required = True,
       m_max_length = Some [], m_placeholder = Some []\<rparr>]"


section \<open>Dictionaries built by assignment\<close>

lemma update_fresh: "k \<notin> fst ` set d \<Longrightarrow> AList.update k v d = d @ [(k, v)]"
  by (induction d) auto

lemma foldl_update_map_of:
  "map_of (foldl (\<lambda>d kv. AList.update (fst kv) (snd kv) d) d0 ps) = map_of d0 ++ map_of (rev ps)"
proof (induction ps arbitrary: d0)
  case Nil
  then show ?case by simp
next
  case (Cons p ps)
  have "map_of (AList.update (fst p) (snd p) d0) ++ map_of (rev ps)
        = map_of d0 ++ map_of (rev ps @ [p])"
    by (rule ext) (simp add: update_conv' map_add_def split: option.splits)
  with Cons show ?case by simp
qed

lemma foldl_update_distinct:
  "distinct (map fst ps) \<Longrightarrow> fst ` set d0 \<inter> fst ` set ps = {} \<Longrightarrow>
   foldl (\<lambda>d kv. AList.update (fst kv) (snd kv) d) d0 ps = d0 @ ps"
proof (induction ps arbitrary: d0)
  case Nil
  then show ?case by simp
next
  case (Cons p ps)
  from Cons.prems have fresh: "fst p \<notin> fst ` set d0" by auto
  have "foldl (\<lambda>d kv. AList.update (fst kv) (snd kv) d) (d0 @ [p]) ps = (d0 @ [p]) @ ps"
    using Cons.prems by (intro Cons.IH) auto
  then show ?case using fresh by (simp add: update_fresh)
qed

lemma map_of_rev_last:
  "map_of (rev (map (\<lambda>m. (f m, g m)) rs)) k =
     (case filter (\<lambda>m. f m = k) rs of [] \<Rightarrow> None | ms \<Rightarrow> Some (g (last ms)))"
proof (induction rs rule: rev_induct)
  case Nil
  then show ?case by simp
next
  case (snoc r rs)
  then show ?case by (auto split: list.splits)
qed

lemma map_of_const:
  "map_of (map (\<lambda>m. (f m, c)) rs) k = (if k \<in> f ` set rs then Some c else None)"
  by (induction rs) auto

section \<open>The path through an existing mapping\<close>

lemma cached_fold_fst:
  "fst (foldl cached_step acc rs) =
     foldl (\<lambda>d kv. AList.update (fst kv) (snd kv) d) (fst acc)
       (map (\<lambda>m. (m_name m, py_of_opt (m_value m))) rs)"
  by (induction rs arbitrary: acc) (simp_all add: cached_step_def)

lemma cached_fold_snd:
  "snd (foldl cached_step acc rs) =
     foldl (\<lambda>d kv. AList.update (fst kv) (snd kv) d) (snd acc)
       (map (\<lambda>m. (m_name m, CSV_mapping)) rs)"
  by (induction rs arbitrary: acc) (simp_all add: cached_step_def)

lemma cached_path:
  assumes "map_of existing_mappings company_name = Some records"
  shows "generate_form_input ai json_loads form_data existing_mappings company_name
           inquiry_content =
    \<lparr>generated_input = Some (fst (foldl cached_step ([], []) records)),
     field_sources = snd (foldl cached_step ([], []) records),
     generate_status = ''input_from_existing_mapping'', generate_item = Some [],
     form_data_after = AList.delete (Some ''g-recaptcha-response'') form_data,
     requests = []\<rparr>"
  using assms by (simp add: generate_form_input_def Let_def)

text \<open>
  C2.  When \<open>company_name\<close> has an entry in \<open>existing_mappings\<close>, \<open>generate_form_input\<close>
  makes no generative request, returns the status \<open>input_from_existing_mapping\<close> and the
  empty list of new mapping records, and returns the dictionary that binds every cached
  record's value to its field name, each name labelled as coming from the existing
  mapping.  The dictionary is built by assigning the records in order; where the field
  names of the records are distinct, it is exactly the list of the cached (name, value)
  pairs in the records' order.
\<close>

theorem cached_mapping_is_replayed:
  assumes "map_of existing_mappings company_name = Some records"
  shows "\<exists>g s.
      generate_form_input ai json_loads form_data existing_mappings company_name
        inquiry_content =
        \<lparr>generated_input = Some g, field_sources = s,
         generate_status = ''input_from_existing_mapping'', generate_item = Some [],
         form_data_after = AList.delete (Some ''g-recaptcha-response'') form_data,
         requests = []\<rparr>
    \<and> map_of g = map_of (rev (map (\<lambda>m. (m_name m, py_of_opt (m_value m))) records))
    \<and> map_of s = map_of (map (\<lambda>m. (m_name m, CSV_mapping)) records)
    \<and> (distinct (map m_name records) \<longrightarrow>
         g = map (\<lambda>m. (m_name m, py_of_opt (m_value m))) records
         \<and> s = map (\<lambda>m. (m_name m, CSV_mapping)) records)"
proof -
  let ?g = "fst (foldl cached_step ([], []) records)"
  let ?s = "snd (foldl cached_step ([], []) records)"
  have g: "map_of ?g = map_of (rev (map (\<lambda>m. (m_name m, py_of_opt (m_value m))) records))"
    by (simp add: cached_fold_fst foldl_update_map_of)
  have "map_of ?s = map_of (rev (map (\<lambda>m. (m_name m, CSV_mapping)) records))"
    by (simp add: cached_fold_snd foldl_update_map_of)
  also have "\<dots> = map_of (map (\<lambda>m. (m_name m, CSV_mapping)) records)"
    by (rule ext) (simp add: rev_map map_of_const)
  finally have s: "map_of ?s = map_of (map (\<lambda>m. (m_name m, CSV_mapping)) records)" .
  have d: "distinct (map m_name records) \<longrightarrow>
         ?g = map (\<lambda>m. (m_name m, py_of_opt (m_value m))) records
         \<and> ?s = map (\<lambda>m. (m_name m, CSV_mapping)) records"
    by (simp add: cached_fold_fst cached_fold_snd foldl_update_distinct comp_def)
  show ?thesis
    using cached_path[OF assms] g s d by blast
qed

theorem cached_mapping_is_replayed_witness:
  "map_of acme_mappings (Some ''Acme'') = Some acme_records
   \<and> generate_form_input ai_down loads_nothing (extract_form_data (Some email_form))
       acme_mappings (Some ''Acme'') (Some ''Please contact us.'') =
     \<lparr>generated_input =
        Some [(Some ''email'', PStr ''a@example.com''), (Some ''message'', PStr ''Hello'')],
      field_sources = [(Some ''email'', CSV_mapping), (Some ''message'', CSV_mapping)],
      generate_status = ''input_from_existing_mapping'', generate_item = Some [],
      form_data_after = extract_form_data (Some email_form), requests = []\<rparr>"
proof -
  have h: "map_of acme_mappings (Some ''Acme'') = Some acme_records"
    by code_simp
  have dist: "distinct (map m_name acme_records)"
    by code_simp
  have pairs: "map (\<lambda>m. (m_name m, py_of_opt (m_value m))) acme_records =
      [(Some ''email'', PStr ''a@example.com''), (Some ''message'', PStr ''Hello'')]"
    by code_simp
  have labels: "map (\<lambda>m. (m_name m, CSV_mapping)) acme_records =
      [(Some ''email'', CSV_mapping), (Some ''message'', CSV_mapping)]"
    by code_simp
  have fd: "AList.delete (Some ''g-recaptcha-response'') (extract_form_data (Some email_form))
      = extract_form_data (Some email_form)"
    by code_simp
  from cached_mapping_is_replayed[OF h, of ai_down loads_nothing
      "extract_form_data (Some email_form)" "Some ''Please contact us.''"]
  show ?thesis
    using h dist pairs labels fd by auto
qed

section \<open>The path without an existing mapping\<close>

lemma generation_path:
  assumes "map_of existing_mappings company_name = None"
    and "ai_input_needed (generation_request form_data inquiry_content) \<noteq> []"
  shows "generate_form_input ai json_loads form_data existing_mappings company_name
           inquiry_content =
     (case ai (generation_request form_data inquiry_content) of
        Ai_raises \<Rightarrow> failed_resolution form_data inquiry_content
      | Ai_content None \<Rightarrow> failed_resolution form_data inquiry_content
      | Ai_content (Some answer) \<Rightarrow>
          (case json_match answer of
             None \<Rightarrow> failed_resolution form_data inquiry_content
           | Some json_str \<Rightarrow>
               (case json_loads json_str of
                  None \<Rightarrow> failed_resolution form_data inquiry_content
                | Some ai_generated_input \<Rightarrow>
                    (case ai_loop (AList.delete (Some ''g-recaptcha-response'') form_data)
                            ai_generated_input (supplied_inputs inquiry_content, []) of
                       None \<Rightarrow> failed_resolution form_data inquiry_content
                     | Some acc \<Rightarrow>
                         (failed_resolution form_data inquiry_content)
                           \<lparr>generated_input := Some (fst acc),
                            generate_status := ''all_input_from_ai'',
                            generate_item := Some (snd acc)\<rparr>))))"
  using assms
  unfolding generate_form_input_def generation_request_def failed_resolution_def
    supplied_inputs_def supplied_sources_def Let_def
  by simp


lemma json_match_sublist:
  assumes "json_match a = Some js"
  shows "\<exists>pre post. a = pre @ js @ post"
proof -
  let ?s = "dropWhile (\<lambda>c. c \<noteq> CHR ''{'') a"
  let ?t = "rev ?s"
  from assms have js: "js = rev (dropWhile (\<lambda>c. c \<noteq> CHR ''}'') ?t)"
    by (auto simp: json_match_def Let_def split: if_splits)
  have "rev (takeWhile (\<lambda>c. c \<noteq> CHR ''}'') ?t @ dropWhile (\<lambda>c. c \<noteq> CHR ''}'') ?t) = rev ?t"
    by (simp only: takeWhile_dropWhile_id)
  then have "rev (dropWhile (\<lambda>c. c \<noteq> CHR ''}'') ?t) @ rev (takeWhile (\<lambda>c. c \<noteq> CHR ''}'') ?t) = ?s"
    by (simp only: rev_append rev_rev_ident)
  then have s: "?s = js @ rev (takeWhile (\<lambda>c. c \<noteq> CHR ''}'') ?t)"
    using js by simp
  have "a = takeWhile (\<lambda>c. c \<noteq> CHR ''{'') a @ ?s" by simp
  with s show ?thesis by metis
qed

lemma no_parseable_part:
  assumes "\<forall>pre js post. a = pre @ js @ post \<longrightarrow> json_loads js = None"
  shows "no_json_object json_loads (Ai_content (Some a))"
proof (cases "json_match a")
  case None
  then show ?thesis by (simp add: no_json_object_def)
next
  case (Some js)
  with json_match_sublist[OF Some] assms show ?thesis
    by (auto simp: no_json_object_def)
qed



text \<open>
  C4.  On the generation path (no existing mapping, at least one field to generate),
  when the generative call raises or its reply holds no parseable JSON object,
  \<open>generate_form_input\<close> returns \<open>None\<close> as the input set, the status
  \<open>input_generation_failed\<close> and \<open>None\<close> as the new mapping records.  By
  \<open>no_parseable_part\<close> the hypothesis holds in particular when no part of the reply
  is accepted by \<open>json.loads\<close>.
\<close>

theorem generation_failure_is_terminal:
  assumes "map_of existing_mappings company_name = None"
    and "ai_input_needed (generation_request form_data inquiry_content) \<noteq> []"
    and "no_json_object json_loads (ai (generation_request form_data inquiry_content))"
  shows "generate_form_input ai json_loads form_data existing_mappings company_name
           inquiry_content =
    \<lparr>generated_input = None, field_sources = supplied_sources inquiry_content,
     generate_status = ''input_generation_failed'', generate_item = None,
     form_data_after = AList.delete (Some ''g-recaptcha-response'') form_data,
     requests = [generation_request form_data inquiry_content]\<rparr>"
proof -
  let ?q = "generation_request form_data inquiry_content"
  have "generate_form_input ai json_loads form_data existing_mappings company_name
           inquiry_content = failed_resolution form_data inquiry_content"
  proof (cases "ai ?q")
    case Ai_raises
    then show ?thesis by (simp add: generation_path[OF assms(1,2)])
  next
    case (Ai_content c)
    show ?thesis
    proof (cases c)
      case None
      with Ai_content show ?thesis by (simp add: generation_path[OF assms(1,2)])
    next
      case (Some answer)
      show ?thesis
      proof (cases "json_match answer")
        case None
        with Ai_content Some show ?thesis by (simp add: generation_path[OF assms(1,2)])
      next
        case (Some json_str)
        with assms(3) Ai_content \<open>c = Some answer\<close> have "json_loads json_str = None"
          by (simp add: no_json_object_def)
        with Ai_content \<open>c = Some answer\<close> Some show ?thesis
          by (simp add: generation_path[OF assms(1,2)])
      qed
    qed
  qed
  then show ?thesis by (simp add: failed_resolution_def)
qed

theorem generation_failure_is_terminal_witness:
  "map_of ([] :: mappings) (Some ''Acme'') = None
   \<and> ai_input_needed (generation_request (extract_form_data (Some email_form)) None) \<noteq> []
   \<and> no_json_object loads_nothing
        (ai_apology (generation_request (extract_form_data (Some email_form)) None))
   \<and> generate_form_input ai_apology loads_nothing (extract_form_data (Some email_form)) []
        (Some ''Acme'') None =
      \<lparr>generated_input = None, field_sources = [],
       generate_status = ''input_generation_failed'', generate_item = None,
       form_data_after = extract_form_data (Some email_form),
       requests = [\<lparr>ai_input_needed = extract_form_data (Some email_form),
                    req_content = None\<rparr>]\<rparr>"
proof -
  have h1: "map_of ([] :: mappings) (Some ''Acme'') = None"
    by simp
  have h2: "ai_input_needed (generation_request (extract_form_data (Some email_form)) None)
      \<noteq> []"
    by code_simp
  have h3: "no_json_object loads_nothing
      (ai_apology (generation_request (extract_form_data (Some email_form)) None))"
    by code_simp
  have e1: "supplied_sources None = []"
    by code_simp
  have e2: "AList.delete (Some ''g-recaptcha-response'') (extract_form_data (Some email_form))
      = extract_form_data (Some email_form)"
    by code_simp
  have e3: "generation_request (extract_form_data (Some email_form)) None =
      \<lparr>ai_input_needed = extract_form_data (Some email_form), req_content = None\<rparr>"
    by code_simp
  note r = generation_failure_is_terminal[where ai = ai_apology
      and json_loads = loads_nothing, OF h1 h2 h3]
  show ?thesis
    using h2 h3 by (simp add: r e1 e2 e3)
qed

section \<open>The shape of a resolution without an existing mapping\<close>








section \<open>CAPTCHA fields\<close>










section \<open>Supplied inquiry content\<close>




section \<open>Agreement checkboxes\<close>

lemma entries_ok_update:
  "entries_ok fd \<Longrightarrow> agreement_is_checkbox v \<Longrightarrow> entries_ok (AList.update k v fd)"
  unfolding entries_ok_def by (induction fd) auto

lemma entries_ok_map_entry:
  "entries_ok fd \<Longrightarrow> (\<And>v. agreement_is_checkbox v \<Longrightarrow> agreement_is_checkbox (f v)) \<Longrightarrow>
   entries_ok (AList.map_entry k f fd)"
  unfolding entries_ok_def by (induction fd) auto

lemma foldl_ok:
  assumes "\<And>fd e. entries_ok fd \<Longrightarrow> entries_ok (step fd e)"
  shows "entries_ok fd \<Longrightarrow> entries_ok (foldl step fd es)"
  by (induction es arbitrary: fd) (simp_all add: assms)

lemma text_input_step_ok: "entries_ok fd \<Longrightarrow> entries_ok (text_input_step fd e)"
  by (simp add: text_input_step_def Let_def entries_ok_update agreement_is_checkbox_def)

lemma select_step_ok: "entries_ok fd \<Longrightarrow> entries_ok (select_step fd e)"
  by (simp add: select_step_def Let_def entries_ok_update agreement_is_checkbox_def)

lemma append_option_ok: "agreement_is_checkbox v \<Longrightarrow> agreement_is_checkbox (append_option x v)"
  by (simp add: append_option_def agreement_is_checkbox_def)

lemma radio_step_ok: "entries_ok fd \<Longrightarrow> entries_ok (radio_step fd e)"
  by (auto simp: radio_step_def Let_def agreement_is_checkbox_def
        intro!: entries_ok_map_entry entries_ok_update append_option_ok)

lemma checkbox_step_ok: "entries_ok fd \<Longrightarrow> entries_ok (checkbox_step fd e)"
  by (simp add: checkbox_step_def Let_def entries_ok_update agreement_is_checkbox_def)

lemma textarea_step_ok: "entries_ok fd \<Longrightarrow> entries_ok (textarea_step fd e)"
  by (simp add: textarea_step_def Let_def entries_ok_update agreement_is_checkbox_def)

lemma dict_update_ok: "entries_ok other \<Longrightarrow> entries_ok d \<Longrightarrow> entries_ok (dict_update d other)"
  unfolding dict_update_def
proof (induction other arbitrary: d)
  case Nil
  then show ?case by simp
next
  case (Cons kv other)
  from Cons.prems(1) have a: "agreement_is_checkbox (snd kv)" and o: "entries_ok other"
    by (simp_all add: entries_ok_def)
  from Cons.IH[OF o entries_ok_update[OF Cons.prems(2) a]] show ?case by simp
qed

lemma extract_form_data_ok: "entries_ok (extract_form_data page)"
proof (cases page)
  case None
  then show ?thesis by (simp add: extract_form_data_def entries_ok_def)
next
  case (Some form)
  have e: "entries_ok []" by (simp add: entries_ok_def)
  have 1: "entries_ok (foldl text_input_step []
             (filter (is_input_of [''text'', ''email'', ''tel'']) form))"
    by (rule foldl_ok[OF text_input_step_ok e])
  have 2: "entries_ok (foldl select_step (foldl text_input_step []
             (filter (is_input_of [''text'', ''email'', ''tel'']) form))
             (filter (\<lambda>e. tag e = ''select'') form))"
    by (rule foldl_ok[OF select_step_ok 1])
  have r: "entries_ok (foldl radio_step [] (filter (is_input_of [''radio'']) form))"
    by (rule foldl_ok[OF radio_step_ok e])
  note 3 = dict_update_ok[OF r 2]
  note 4 = foldl_ok[of checkbox_step, OF checkbox_step_ok 3]
  note 5 = foldl_ok[of textarea_step, OF textarea_step_ok 4]
  show ?thesis
    unfolding extract_form_data_def Let_def Some option.case by (rule 5)
qed

lemma extracted_agreement_is_checkbox:
  assumes "map_of (extract_form_data page) k = Some fi" and "purpose fi = Some ''agreement''"
  shows "ftype fi = Some ''checkbox''"
proof -
  from assms(1) have "(k, fi) \<in> set (extract_form_data page)"
    by (rule map_of_SomeD)
  with extract_form_data_ok[of page] have "agreement_is_checkbox fi"
    by (auto simp: entries_ok_def list_all_iff)
  with assms(2) show ?thesis by (simp add: agreement_is_checkbox_def)
qed

lemma click_checkbox:
  "checkbox (page_of (click p k' sel)) k =
     (if k = k' \<and> clickable p k' then Some (\<not> sel) else checkbox p k)"
  by (simp add: click_def)

lemma fill_other_checkbox: "checkbox (page_of (fill_other p kind k' v)) k = checkbox p k"
  by (simp add: fill_other_def split: fill_outcome.splits)

lemma fill_checkbox_other:
  "k' \<noteq> k \<Longrightarrow> checkbox (page_of (fill_checkbox p fi k' v)) k = checkbox p k"
  by (simp add: fill_checkbox_def click_checkbox split: option.splits)

lemma fill_field_other:
  "fst kv \<noteq> k \<Longrightarrow> checkbox (page_of (fill_field fd p kv)) k = checkbox p k"
  by (simp add: fill_field_def fill_other_checkbox fill_checkbox_other split: option.splits)

lemma fill_field_agreement:
  assumes "map_of fd k = Some fi" "ftype fi = Some ''checkbox''" "purpose fi = Some ''agreement''"
  shows "fill_field fd p (k, v) =
     (case checkbox p k of
        None \<Rightarrow> Normal p
      | Some sel \<Rightarrow> if \<not> sel then click p k sel else Normal p)"
  using assms by (simp add: fill_field_def fill_checkbox_def split: option.splits)


lemma fill_field_keeps_present:
  assumes "map_of fd k = Some fi" "ftype fi = Some ''checkbox''" "purpose fi = Some ''agreement''"
    and "checkbox p k \<noteq> None"
  shows "checkbox (page_of (fill_field fd p kv)) k \<noteq> None"
proof (cases "fst kv = k")
  case True
  then have "kv = (k, snd kv)" by auto
  then have "fill_field fd p kv =
     (case checkbox p k of
        None \<Rightarrow> Normal p
      | Some sel \<Rightarrow> if \<not> sel then click p k sel else Normal p)"
    using fill_field_agreement[OF assms(1-3), of p "snd kv"] by simp
  with assms(4) show ?thesis by (auto simp: click_checkbox split: option.splits)
next
  case False
  with assms(4) show ?thesis by (simp add: fill_field_other)
qed






section \<open>Loading the mapping store\<close>

lemma records_of_add:
  "records_of (add_record c r m) c' =
     (if c' = c then records_of m c @ [r] else records_of m c')"
  by (simp add: records_of_def add_record_def map_of_map_entry update_conv'
      split: option.splits)

lemma load_rows_records:
  "load_rows hdr rs m = Inr m' \<Longrightarrow>
   records_of m' c = records_of m c @ map snd (filter (\<lambda>cr. fst cr = c) (row_records hdr rs))"
proof (induction rs arbitrary: m)
  case Nil
  then show ?case by (simp add: row_records_def)
next
  case (Cons r rs)
  show ?case
  proof (cases "r = []")
    case True
    with Cons show ?thesis by (simp add: row_records_def)
  next
    case False
    show ?thesis
    proof (cases "load_row (row_dict hdr r)")
      case (Inl e)
      with False Cons.prems show ?thesis by simp
    next
      case (Inr cr)
      with False Cons.prems have "load_rows hdr rs (add_record (fst cr) (snd cr) m) = Inr m'"
        by simp
      from Cons.IH[OF this] False Inr show ?thesis
        by (simp add: row_records_def records_of_add)
    qed
  qed
qed

lemma load_rows_count:
  "load_rows hdr rs m = Inr m' \<Longrightarrow>
   length (row_records hdr rs) = length (filter (\<lambda>r. r \<noteq> []) rs)"
proof (induction rs arbitrary: m)
  case Nil
  then show ?case by (simp add: row_records_def)
next
  case (Cons r rs)
  show ?case
  proof (cases "r = []")
    case True
    with Cons show ?thesis by (simp add: row_records_def)
  next
    case False
    show ?thesis
    proof (cases "load_row (row_dict hdr r)")
      case (Inl e)
      with False Cons.prems show ?thesis by simp
    next
      case (Inr cr)
      with False Cons.prems have "load_rows hdr rs (add_record (fst cr) (snd cr) m) = Inr m'"
        by simp
      from Cons.IH[OF this] False Inr show ?thesis
        by (simp add: row_records_def)
    qed
  qed
qed


lemma file_records_of_load:
  assumes "load_input_mappings file = Inr m"
  shows "records_of m c = map snd (filter (\<lambda>cr. fst cr = c) (file_records file))"
    and "length (file_records file) = length (data_rows file)"
proof -
  show "records_of m c = map snd (filter (\<lambda>cr. fst cr = c) (file_records file))"
  proof (cases "file")
    case None
    with assms show ?thesis
      by (simp add: load_input_mappings_def file_records_def records_of_def)
  next
    case (Some rows)
    show ?thesis
    proof (cases rows)
      case Nil
      with Some assms show ?thesis
        by (simp add: load_input_mappings_def file_records_def records_of_def)
    next
      case (Cons h rs)
      with Some assms have
        "load_rows (map universal_newlines h) (map (map universal_newlines) rs) [] = Inr m"
        by (simp add: load_input_mappings_def)
      from load_rows_records[OF this, of c] Some Cons show ?thesis
        by (simp add: file_records_def records_of_def)
    qed
  qed
  show "length (file_records file) = length (data_rows file)"
  proof (cases "file")
    case None
    then show ?thesis by (simp add: file_records_def data_rows_def)
  next
    case (Some rows)
    show ?thesis
    proof (cases rows)
      case Nil
      with Some show ?thesis by (simp add: file_records_def data_rows_def)
    next
      case (Cons h rs)
      with Some assms have
        "load_rows (map universal_newlines h) (map (map universal_newlines) rs) [] = Inr m"
        by (simp add: load_input_mappings_def)
      from load_rows_count[OF this] Some Cons show ?thesis
        by (simp add: file_records_def data_rows_def filter_map comp_def)
    qed
  qed
qed

text \<open>
  C7, as amended.  The claim as stated fails (the counterexample follows the witness):
  the value bound is not that of the first loaded match.  What holds: a load that
  succeeds returns, for each company, the records of all its rows in file order, one
  record for every row after the header that holds cells, so nothing is rewritten,
  merged or dropped; and the value bound to a field during resolution is that of the last
  loaded record of that field, which is the most recently appended one.
\<close>

theorem last_loaded_match_wins:
  assumes "load_input_mappings file = Inr m" and "map_of m company_name = Some recs"
  shows "recs = map snd (filter (\<lambda>cr. fst cr = company_name) (file_records file))
     \<and> length (file_records file) = length (data_rows file)
     \<and> (\<exists>g. generated_input (generate_form_input ai json_loads form_data m company_name
                inquiry_content) = Some g
          \<and> (\<forall>k. map_of g k =
                (case filter (\<lambda>r. m_name r = k) recs of
                   [] \<Rightarrow> None
                 | ms \<Rightarrow> Some (py_of_opt (m_value (last ms))))))"
proof (intro conjI)
  from assms(2) have "records_of m company_name = recs"
    by (simp add: records_of_def)
  with file_records_of_load(1)[OF assms(1), of company_name]
  show "recs = map snd (filter (\<lambda>cr. fst cr = company_name) (file_records file))"
    by simp
  show "length (file_records file) = length (data_rows file)"
    by (rule file_records_of_load(2)[OF assms(1)])
  let ?g = "fst (foldl cached_step ([], []) recs)"
  have "\<forall>k. map_of ?g k =
          (case filter (\<lambda>r. m_name r = k) recs of
             [] \<Rightarrow> None
           | ms \<Rightarrow> Some (py_of_opt (m_value (last ms))))"
    by (simp add: cached_fold_fst foldl_update_map_of map_of_rev_last)
  moreover have "generated_input (generate_form_input ai json_loads form_data m company_name
                inquiry_content) = Some ?g"
    by (simp add: cached_path[OF assms(2)])
  ultimately show "\<exists>g. generated_input (generate_form_input ai json_loads form_data m
                company_name inquiry_content) = Some g
          \<and> (\<forall>k. map_of g k =
                (case filter (\<lambda>r. m_name r = k) recs of
                   [] \<Rightarrow> None
                 | ms \<Rightarrow> Some (py_of_opt (m_value (last ms)))))"
    by blast
qed

theorem last_loaded_match_wins_witness:
  "load_input_mappings dup_store = Inr [(Some ''Acme'', dup_records)]
   \<and> map_of [(Some ''Acme'', dup_records)] (Some ''Acme'') = Some dup_records
   \<and> dup_records = map snd (filter (\<lambda>cr. fst cr = Some ''Acme'') (file_records dup_store))
   \<and> length (file_records dup_store) = length (data_rows dup_store)"
proof -
  have h1: "load_input_mappings dup_store = Inr [(Some ''Acme'', dup_records)]"
    by code_simp
  have h2: "map_of [(Some ''Acme'', dup_records)] (Some ''Acme'') = Some dup_records"
    by simp
  from last_loaded_match_wins[OF h1 h2, of ai_down loads_nothing "[]" None]
  show ?thesis
    using h1 h2 by blast
qed

text \<open>
  The claim of C7 as stated fails on a store to which two runs appended a record for the
  same company and field: the load returns both records, the older first, and the
  resolution binds the value of the second.
\<close>

theorem first_loaded_match_counterexample:
  "load_input_mappings dup_store = Inr [(Some ''Acme'', dup_records)]
   \<and> map (\<lambda>r. (m_name r, m_value r)) dup_records =
       [(Some ''email'', Some ''old@example.com''), (Some ''email'', Some ''new@example.com'')]
   \<and> generated_input (generate_form_input ai_down loads_nothing []
         [(Some ''Acme'', dup_records)] (Some ''Acme'') None) =
       Some [(Some ''email'', PStr ''new@example.com'')]"
  by code_simp

section \<open>Saving and loading again\<close>












section \<open>Defects\<close>

text \<open>
  C9.  The claim is that every key of the catalog is a non-empty field name and that no
  entry is created for an element without a \<open>name\<close> attribute.  The checkbox loop breaks
  it: for a checkbox with no \<open>name\<close> the catalog gets an entry under the key \<open>None\<close>.
\<close>

theorem nameless_checkbox_is_catalogued:
  "map fst (extract_form_data (Some nameless_checkbox_form)) = [None]"
  by code_simp

text \<open>
  C3.  The claim is that a batch returns one result per task and that an exception of a
  worker becomes a synthetic result with status \<open>error\<close>.  The handler reads the name
  \<open>time\<close>, which \<open>app.py\<close> never imports: for the batch of ten tasks whose third worker
  raises, \<open>submit_forms\<close> ends with \<open>NameError\<close> and returns no result at all.
\<close>

theorem worker_exception_aborts_batch:
  "length batch10 = 10 \<and> submit_forms ''2024/01/01 09:05'' batch10 = Inl NameError"
  by code_simp

text \<open>
  C6.  The claim is that a generated field name the catalog does not have is ignored and
  the other fields are still resolved.  For the catalog with the one field \<open>email\<close> and a
  reply that binds \<open>email\<close> and \<open>phone\<close>, the lookup \<open>form_data['phone']\<close> raises, the
  handler of the generative call catches it, and the whole synthesis fails: no input is
  returned, not even for \<open>email\<close>.
\<close>

theorem unknown_generated_name_fails_synthesis:
  "generate_form_input (\<lambda>q. Ai_content (Some answer_with_phone)) loads_with_phone
     (extract_form_data (Some email_form)) [] (Some ''Acme'') None =
   \<lparr>generated_input = None, field_sources = [],
    generate_status = ''input_generation_failed'', generate_item = None,
    form_data_after = extract_form_data (Some email_form),
    requests = [\<lparr>ai_input_needed = extract_form_data (Some email_form),
                 req_content = None\<rparr>]\<rparr>"
  by code_simp

end
